theory Spec2Isabelle
  imports Complex_Main "HOL-Library.Multiset"
begin

section \<open>Player tracking utilities: data model\<close>

text \<open>
  The module works on a pandas table of tracking observations. A table is modelled by its
  rows, in table order, together with the presence of the three optional columns that the
  code tests with \<^verbatim>\<open>in df.columns\<close>. The identifier columns are integers and always
  present (the input contract makes them required, so the lookup of a required column
  cannot fail). A cell of a float or string column is an \<open>option\<close>: \<open>None\<close> is the
  missing value (NaN or None) that \<^verbatim>\<open>pd.notna\<close> screens. The type \<open>'a\<close> is the type of
  the non-missing coordinate values; nothing in the table code computes with them.
  The fields carry the names of the column constants of the source.
\<close>

record 'a row =
  GAME_ID :: int
  PLAY_ID :: int
  FRAME_ID :: int
  NFL_ID :: int
  X :: "'a option"
  Y :: "'a option"
  PLAYER_NAME :: "string option"
  BALL_LAND_X :: "'a option"
  BALL_LAND_Y :: "'a option"

record 'a dataframe =
  has_PLAYER_NAME :: bool
  has_BALL_LAND_X :: bool
  has_BALL_LAND_Y :: bool
  rows :: "'a row list"

datatype py_error = IndexError

type_synonym 'a points = "('a option \<times> 'a option) list"

text \<open>A label is a name cell of the table (possibly missing) or a synthesized string.\<close>

type_synonym label = "string option"

subsection \<open>Library operations used by the code\<close>

text \<open>
  \<^verbatim>\<open>series.iloc[0]\<close>: the first element of a column, IndexError on an empty one.
\<close>

fun iloc0 :: "'b list \<Rightarrow> py_error + 'b" where
  "iloc0 [] = Inl IndexError"
| "iloc0 (v # vs) = Inr v"

text \<open>
  \<^verbatim>\<open>pd.notna\<close> on a cell.
\<close>

definition notna :: "'b option \<Rightarrow> bool" where
  "notna c = (c \<noteq> None)"

text \<open>
  \<^verbatim>\<open>play_df.groupby(NFL_ID)\<close>, iterated: one group per distinct key, the keys ascending,
  each group holding its rows in the order they have in \<open>play_df\<close>.
\<close>

definition group_keys :: "'a row list \<Rightarrow> int list" where
  "group_keys play_df = sort (remdups (map NFL_ID play_df))"

definition groupby_NFL_ID :: "'a row list \<Rightarrow> (int \<times> 'a row list) list" where
  "groupby_NFL_ID play_df =
     map (\<lambda>k. (k, filter (\<lambda>r. NFL_ID r = k) play_df)) (group_keys play_df)"

text \<open>
  \<^verbatim>\<open>play_df.sort_values(FRAME_ID)\<close> is left to pandas, whose default sorting algorithm
  does not promise an order among rows of equal frame. The sort is therefore a parameter
  of the model, and the theorems ask of it only what every sort by frame gives: the
  result is ordered by frame identifier and holds the same rows.
\<close>

definition sorts_by_frame :: "('a row list \<Rightarrow> 'a row list) \<Rightarrow> bool" where
  "sorts_by_frame sort_values =
     (\<forall>rs. sorted (map FRAME_ID (sort_values rs)) \<and> mset (sort_values rs) = mset rs)"

text \<open>
  The decimal text of an integer, as an f-string prints it.
\<close>

definition digit_chars :: string where
  "digit_chars = ''0123456789''"

function str_nat :: "nat \<Rightarrow> string" where
  "str_nat n = (if n < 10 then [digit_chars ! n]
                else str_nat (n div 10) @ [digit_chars ! (n mod 10)])"
  by pat_completeness auto
termination
  by (relation "measure (\<lambda>n. n)") auto

declare str_nat.simps [simp del]

definition str_int :: "int \<Rightarrow> string" where
  "str_int i = (if i < 0 then CHR ''-'' # str_nat (nat (- i)) else str_nat (nat i))"

section \<open>Coordinate extraction\<close>

text \<open>
  \<^verbatim>\<open>extract_points(play_group)\<close>: \<^verbatim>\<open>list(zip(play_group[X], play_group[Y]))\<close>.
\<close>

definition extract_points :: "'a row list \<Rightarrow> 'a points" where
  "extract_points play_group = zip (map X play_group) (map Y play_group)"

section \<open>Play aggregation\<close>

text \<open>
  The selection of the rows of one play, \<^verbatim>\<open>df[(df[GAME_ID] == game_id) & (df[PLAY_ID] == play_id)]\<close>.
\<close>

definition select_play :: "'a dataframe \<Rightarrow> int \<Rightarrow> int \<Rightarrow> 'a row list" where
  "select_play df game_id play_id =
     filter (\<lambda>r. GAME_ID r = game_id \<and> PLAY_ID r = play_id) (rows df)"

text \<open>
  The landing position: read from the first row of the sorted selection when both
  columns exist, kept when both cells are non-missing.
\<close>

definition ball_landing :: "'a dataframe \<Rightarrow> 'a row list \<Rightarrow> py_error + ('a option \<times> 'a option) option" where
  "ball_landing df play_df =
     (if has_BALL_LAND_X df \<and> has_BALL_LAND_Y df then
        (case iloc0 (map BALL_LAND_X play_df) of
           Inl e \<Rightarrow> Inl e
         | Inr ball_x \<Rightarrow>
             (case iloc0 (map BALL_LAND_Y play_df) of
                Inl e \<Rightarrow> Inl e
              | Inr ball_y \<Rightarrow>
                  if notna ball_x \<and> notna ball_y then Inr (Some (ball_x, ball_y))
                  else Inr None))
      else Inr None)"

text \<open>
  The loop over the groups, with the two lists it appends to as accumulators.
\<close>

fun player_loop ::
  "bool \<Rightarrow> (int \<times> 'a row list) list \<Rightarrow> 'a points list \<Rightarrow> label list
     \<Rightarrow> py_error + ('a points list \<times> label list)" where
  "player_loop has_name [] points_array labels = Inr (points_array, labels)"
| "player_loop has_name ((nfl_id, player_group) # groups) points_array labels =
     (let points = zip (map X player_group) (map Y player_group);
          points_array = points_array @ [points]
      in if has_name then
           (case iloc0 (map PLAYER_NAME player_group) of
              Inl e \<Rightarrow> Inl e
            | Inr player_name \<Rightarrow>
                player_loop has_name groups points_array (labels @ [player_name]))
         else
           player_loop has_name groups points_array
             (labels @ [Some (''Player '' @ str_int nfl_id)]))"

definition get_player_points_array ::
  "('a row list \<Rightarrow> 'a row list) \<Rightarrow> 'a dataframe \<Rightarrow> int \<Rightarrow> int
     \<Rightarrow> py_error + ('a points list \<times> label list \<times> ('a option \<times> 'a option) option)" where
  "get_player_points_array sort_values df game_id play_id =
     (let play_df = select_play df game_id play_id;
          play_df = sort_values play_df
      in case ball_landing df play_df of
           Inl e \<Rightarrow> Inl e
         | Inr ball_land \<Rightarrow>
             (case player_loop (has_PLAYER_NAME df) (groupby_NFL_ID play_df) [] [] of
                Inl e \<Rightarrow> Inl e
              | Inr (points_array, labels) \<Rightarrow> Inr (points_array, labels, ball_land)))"

section \<open>Role filter\<close>

text \<open>
  \<^verbatim>\<open>player_role.isin(['Other Route Runner', 'Passer', 'Targeted Receiver'])\<close> on a column
  of role cells.
\<close>

definition is_offensive_player :: "string option list \<Rightarrow> bool list" where
  "is_offensive_player player_role =
     map (\<lambda>c. c \<in> set [Some ''Other Route Runner'', Some ''Passer'', Some ''Targeted Receiver''])
       player_role"

section \<open>Field rendering\<close>

text \<open>
  The two renderers talk to the plotting library only. A call of the library that draws or
  configures something is recorded as a value of the type \<open>draw\<close>, in the order of the
  calls; a renderer returns the calls it has made and how it ended (an exception, or
  normally). The positions of the background are decimal literals; the coordinates of the
  trajectories are of a type \<open>'a\<close> with its own subtraction (the float subtraction of the
  source). Keyword arguments that only style a call (line widths, marker sizes, opacity,
  drawing order, text colours) are not recorded.
\<close>

type_synonym color = string

datatype 'a draw =
    Subplots rat rat
  | Figure rat rat
  | Rectangle rat rat rat rat color
  | FieldLine "rat list" "rat list"
  | XLim rat rat
  | YLim rat rat
  | Trajectory "'a list" "'a list" color label
  | Arrow 'a 'a 'a 'a color
  | BallLanding 'a 'a
  | Line "'a list" "'a list" string
  | Marker 'a 'a string string
  | XLabel string
  | YLabel string
  | Title string
  | FaceColor color
  | FigureFaceColor color
  | TickParams
  | Grid
  | Legend
  | Aspect
  | TightLayout
  | Show

text \<open>
  Indexing a Python list with an integer: a negative index counts from the end, an index
  outside the list raises IndexError.
\<close>

definition py_index :: "'b list \<Rightarrow> int \<Rightarrow> py_error + 'b" where
  "py_index xs i =
     (if 0 \<le> i \<and> i < int (length xs) then Inr (xs ! nat i)
      else if i < 0 \<and> - int (length xs) \<le> i then Inr (xs ! nat (int (length xs) + i))
      else Inl IndexError)"

text \<open>
  \<^verbatim>\<open>if game_id and play_id\<close>: an identifier counts when it is given and not zero.
\<close>

definition truthy :: "int option \<Rightarrow> bool" where
  "truthy v = (case v of None \<Rightarrow> False | Some n \<Rightarrow> n \<noteq> 0)"

definition title_of :: "string \<Rightarrow> int option \<Rightarrow> int option \<Rightarrow> string" where
  "title_of generic game_id play_id =
     (if truthy game_id \<and> truthy play_id
      then ''Game: '' @ str_int (the game_id) @ '', Play: '' @ str_int (the play_id)
      else generic)"

text \<open>
  \<^verbatim>\<open>plt.cm.tab10\<close> is the plotting library's qualitative colour map of ten entries. Called
  on integers it looks each one up in its table, and an integer at or beyond the size of
  the table receives the colour reserved for values over the range, which the library
  sets to the last entry of the table.
\<close>

definition tab10_colors :: "color list" where
  "tab10_colors = [''#1f77b4'', ''#ff7f0e'', ''#2ca02c'', ''#d62728'', ''#9467bd'',
                   ''#8c564b'', ''#e377c2'', ''#7f7f7f'', ''#bcbd22'', ''#17becf'']"

definition tab10 :: "nat list \<Rightarrow> color list" where
  "tab10 indices = map (\<lambda>i. tab10_colors ! min i 9) indices"

subsection \<open>Several trajectories\<close>

definition field_background :: "'a draw list" where
  "field_background =
     [Subplots 12 5,
      Rectangle 0 0 120 53.3 ''#2d5016'',
      Rectangle (-10) 0 10 53.3 ''#1a3d0a'',
      Rectangle 120 0 10 53.3 ''#1a3d0a'']
     @ map (\<lambda>yard. FieldLine [yard, yard] [0, 53.3]) (map (\<lambda>k. 10 * rat_of_nat k) [0..<13])
     @ [FieldLine [0, 120] [0, 0],
        FieldLine [0, 120] [53.3, 53.3],
        XLim (-10) 130,
        YLim (-5) 58.3]"

text \<open>
  The arrow of one trajectory: the four reads of the last two points, then the call.
\<close>

definition arrow_of :: "('a::minus) list \<Rightarrow> 'a list \<Rightarrow> color \<Rightarrow> py_error + 'a draw" where
  "arrow_of x_coords y_coords c =
     (case py_index x_coords (-1) of Inl e \<Rightarrow> Inl e | Inr x_last \<Rightarrow>
     (case py_index x_coords (-2) of Inl e \<Rightarrow> Inl e | Inr x_prev \<Rightarrow>
     (case py_index y_coords (-1) of Inl e \<Rightarrow> Inl e | Inr y_last \<Rightarrow>
     (case py_index y_coords (-2) of Inl e \<Rightarrow> Inl e | Inr y_prev \<Rightarrow>
        Inr (Arrow x_prev y_prev (x_last - x_prev) (y_last - y_prev) c)))))"

definition label_for :: "label list option \<Rightarrow> nat \<Rightarrow> label" where
  "label_for labels i =
     (case labels of
        None \<Rightarrow> Some (''Player '' @ str_nat (i + 1))
      | Some ls \<Rightarrow> if ls \<noteq> [] \<and> i < length ls then ls ! i
                   else Some (''Player '' @ str_nat (i + 1)))"

text \<open>
  The loop over \<^verbatim>\<open>enumerate(points_array)\<close>, the calls made so far as accumulator.
\<close>

fun plot_loop ::
  "color list \<Rightarrow> label list option \<Rightarrow> (nat \<times> (('a::minus) \<times> 'a) list) list \<Rightarrow> 'a draw list
     \<Rightarrow> 'a draw list \<times> (py_error + unit)" where
  "plot_loop colors labels [] canvas = (canvas, Inr ())"
| "plot_loop colors labels ((i, points) # rest) canvas =
     (let x_coords = map fst points;
          y_coords = map snd points;
          label = label_for labels i
      in case py_index colors (int i) of
           Inl e \<Rightarrow> (canvas, Inl e)
         | Inr c \<Rightarrow>
             (let canvas = canvas @ [Trajectory x_coords y_coords c label]
              in if 2 \<le> length points then
                   (case arrow_of x_coords y_coords c of
                      Inl e \<Rightarrow> (canvas, Inl e)
                    | Inr arrow \<Rightarrow> plot_loop colors labels rest (canvas @ [arrow]))
                 else plot_loop colors labels rest canvas))"

definition decorations :: "('a \<times> 'a) option \<Rightarrow> int option \<Rightarrow> int option \<Rightarrow> 'a draw list" where
  "decorations ball_land game_id play_id =
     (case ball_land of None \<Rightarrow> [] | Some b \<Rightarrow> [BallLanding (fst b) (snd b)])
     @ [XLabel ''X (yards)'',
        YLabel ''Y (yards)'',
        Title (title_of ''Player Trajectories'' game_id play_id),
        FaceColor ''#2d5016'',
        FigureFaceColor ''#1a1a1a'',
        TickParams,
        Legend,
        Aspect,
        TightLayout,
        Show]"

definition plot_multiple_points ::
  "(('a::minus) \<times> 'a) list list \<Rightarrow> ('a \<times> 'a) option \<Rightarrow> int option \<Rightarrow> int option
     \<Rightarrow> label list option \<Rightarrow> 'a draw list \<times> (py_error + unit)" where
  "plot_multiple_points points_array ball_land game_id play_id labels =
     (let colors = tab10 [0..<length points_array]
      in case plot_loop colors labels (enumerate 0 points_array) field_background of
           (canvas, Inl e) \<Rightarrow> (canvas, Inl e)
         | (canvas, Inr u) \<Rightarrow> (canvas @ decorations ball_land game_id play_id, Inr ()))"

subsection \<open>One trajectory\<close>

definition plot_single_trajectory ::
  "('a \<times> 'a) list \<Rightarrow> int option \<Rightarrow> int option \<Rightarrow> 'a draw list \<times> (py_error + unit)" where
  "plot_single_trajectory points game_id play_id =
     (let x_coords = map fst points;
          y_coords = map snd points;
          canvas = [Figure 12 5, XLim (-5) 125, YLim (-5) 58, Line x_coords y_coords ''b-o'']
      in case py_index x_coords 0 of Inl e \<Rightarrow> (canvas, Inl e) | Inr x_first \<Rightarrow>
        (case py_index y_coords 0 of Inl e \<Rightarrow> (canvas, Inl e) | Inr y_first \<Rightarrow>
        (let canvas = canvas @ [Marker x_first y_first ''go'' ''Start'']
         in case py_index x_coords (-1) of Inl e \<Rightarrow> (canvas, Inl e) | Inr x_last \<Rightarrow>
           (case py_index y_coords (-1) of Inl e \<Rightarrow> (canvas, Inl e) | Inr y_last \<Rightarrow>
              (canvas @ [Marker x_last y_last ''ro'' ''End'',
                         XLabel ''X (yards)'',
                         YLabel ''Y (yards)'',
                         Title (title_of ''Player Trajectory'' game_id play_id),
                         Grid,
                         Legend,
                         Aspect,
                         Show], Inr ())))))"

section \<open>Example tables\<close>

text \<open>
  Rows of play 7 of game 100, used to run the functions on concrete tables. The table
  \<open>two_player_play\<close> has the landing columns and no name column, and its rows are not in
  frame order; \<open>late_landing_play\<close> has a landing position only from the second frame on;
  \<open>unnamed_first_frame_play\<close> has the name column, with the name missing in the first
  frame of player 1.
\<close>

definition track ::
  "int \<Rightarrow> int \<Rightarrow> rat \<Rightarrow> rat \<Rightarrow> string option \<Rightarrow> rat option \<Rightarrow> rat option \<Rightarrow> rat row" where
  "track frame player px py name bx by =
     \<lparr>GAME_ID = 100, PLAY_ID = 7, FRAME_ID = frame, NFL_ID = player,
      X = Some px, Y = Some py, PLAYER_NAME = name, BALL_LAND_X = bx, BALL_LAND_Y = by\<rparr>"

definition two_player_play :: "rat dataframe" where
  "two_player_play =
     \<lparr>has_PLAYER_NAME = False, has_BALL_LAND_X = True, has_BALL_LAND_Y = True,
      rows = [track 2 2 48 26 None (Some 60) (Some 10),
              track 1 1 10 20 None (Some 60) (Some 10),
              track 3 1 14 22 None (Some 60) (Some 10),
              track 1 2 50 25 None (Some 60) (Some 10),
              track 2 1 12 21 None (Some 60) (Some 10)]\<rparr>"

definition late_landing_play :: "rat dataframe" where
  "late_landing_play =
     \<lparr>has_PLAYER_NAME = False, has_BALL_LAND_X = True, has_BALL_LAND_Y = True,
      rows = [track 1 1 10 20 None None (Some 10),
              track 2 1 12 21 None (Some 60) (Some 10),
              track 3 1 14 22 None (Some 60) (Some 10)]\<rparr>"

definition unnamed_first_frame_play :: "rat dataframe" where
  "unnamed_first_frame_play =
     \<lparr>has_PLAYER_NAME = True, has_BALL_LAND_X = False, has_BALL_LAND_Y = False,
      rows = [track 1 1 10 20 None None None,
              track 2 1 12 21 (Some ''Ann Lee'') None None,
              track 1 2 50 25 (Some ''Bo Day'') None None]\<rparr>"

definition empty_table :: "rat dataframe" where
  "empty_table =
     \<lparr>has_PLAYER_NAME = True, has_BALL_LAND_X = True, has_BALL_LAND_Y = True, rows = []\<rparr>"

text \<open>Two rows of one player, the second without a y position.\<close>

definition gap_rows :: "rat row list" where
  "gap_rows = [track 1 1 10 20 None None None, (track 2 1 12 21 None None None)\<lparr>Y := None\<rparr>]"

text \<open>Eleven trajectories of one point each, for the renderer.\<close>

definition eleven_points :: "(rat \<times> rat) list list" where
  "eleven_points = map (\<lambda>k. [(rat_of_nat k, rat_of_nat k)]) [0..<11]"

text \<open>An empty trajectory, one of a single point and one of three points.\<close>

definition mixed_points :: "(rat \<times> rat) list list" where
  "mixed_points = [[], [(5, 5)], [(10, 20), (12, 21), (14, 22)]]"

section \<open>Properties of the library operations\<close>

lemma sorts_by_frame_sort_key: "sorts_by_frame (sort_key FRAME_ID)"
  by (simp add: sorts_by_frame_def)

lemma sorts_by_frame_Nil_iff: "sorts_by_frame srt \<Longrightarrow> srt rs = [] \<longleftrightarrow> rs = []"
  by (metis mset_zero_iff sorts_by_frame_def)

lemma sorts_by_frame_set: "sorts_by_frame srt \<Longrightarrow> set (srt rs) = set rs"
  by (metis set_mset_mset sorts_by_frame_def)

lemma iloc0_map: "rs \<noteq> [] \<Longrightarrow> iloc0 (map f rs) = Inr (f (hd rs))"
  by (cases rs) simp_all

subsection \<open>The result of the aggregator\<close>

lemma player_loop_named:
  "list_all (\<lambda>g. snd g \<noteq> []) groups \<Longrightarrow>
   player_loop True groups points_array labels =
     Inr (points_array @ map (\<lambda>g. extract_points (snd g)) groups,
          labels @ map (\<lambda>g. PLAYER_NAME (hd (snd g))) groups)"
proof (induction groups arbitrary: points_array labels)
  case Nil
  show ?case by simp
next
  case (Cons g groups)
  obtain nfl_id player_group where g: "g = (nfl_id, player_group)" by (cases g)
  from Cons.prems g have ne: "player_group \<noteq> []" and rest: "list_all (\<lambda>g. snd g \<noteq> []) groups"
    by simp_all
  show ?case
    using ne by (simp add: g Let_def iloc0_map extract_points_def Cons.IH [OF rest])
qed

lemma player_loop_unnamed:
  "player_loop False groups points_array labels =
     Inr (points_array @ map (\<lambda>g. extract_points (snd g)) groups,
          labels @ map (\<lambda>g. Some (''Player '' @ str_int (fst g))) groups)"
  by (induction groups arbitrary: points_array labels)
     (auto simp: Let_def extract_points_def)

lemma player_loop_groups:
  assumes "list_all (\<lambda>g. snd g \<noteq> []) groups"
  shows "player_loop has_name groups points_array labels =
     Inr (points_array @ map (\<lambda>g. extract_points (snd g)) groups,
          labels @ map (\<lambda>g. if has_name then PLAYER_NAME (hd (snd g))
                             else Some (''Player '' @ str_int (fst g))) groups)"
proof (cases has_name)
  case True
  then show ?thesis using player_loop_named [OF assms] by simp
next
  case False
  then show ?thesis using player_loop_unnamed by simp
qed

lemma groupby_nonempty: "list_all (\<lambda>g. snd g \<noteq> []) (groupby_NFL_ID play_df)"
  by (auto simp: groupby_NFL_ID_def group_keys_def list_all_iff filter_empty_conv)

lemma ball_landing_Nil:
  "ball_landing df [] = (if has_BALL_LAND_X df \<and> has_BALL_LAND_Y df then Inl IndexError else Inr None)"
  by (simp add: ball_landing_def)

lemma ball_landing_nonempty:
  "play_df \<noteq> [] \<Longrightarrow>
   ball_landing df play_df =
     Inr (if has_BALL_LAND_X df \<and> has_BALL_LAND_Y df
             \<and> BALL_LAND_X (hd play_df) \<noteq> None \<and> BALL_LAND_Y (hd play_df) \<noteq> None
          then Some (BALL_LAND_X (hd play_df), BALL_LAND_Y (hd play_df)) else None)"
  by (simp add: ball_landing_def iloc0_map notna_def)

lemma player_loop_groupby:
  "player_loop has_name (groupby_NFL_ID play_df) [] [] =
     Inr (map (\<lambda>k. extract_points (filter (\<lambda>r. NFL_ID r = k) play_df)) (group_keys play_df),
          map (\<lambda>k. if has_name then PLAYER_NAME (hd (filter (\<lambda>r. NFL_ID r = k) play_df))
                    else Some (''Player '' @ str_int k)) (group_keys play_df))"
  unfolding player_loop_groups [OF groupby_nonempty]
  by (simp add: groupby_NFL_ID_def comp_def)

lemma aggregate_nonempty:
  assumes "srt (select_play df game_id play_id) \<noteq> []"
  shows "get_player_points_array srt df game_id play_id =
     Inr (map (\<lambda>k. extract_points (filter (\<lambda>r. NFL_ID r = k) (srt (select_play df game_id play_id))))
            (group_keys (srt (select_play df game_id play_id))),
          map (\<lambda>k. if has_PLAYER_NAME df
                    then PLAYER_NAME (hd (filter (\<lambda>r. NFL_ID r = k) (srt (select_play df game_id play_id))))
                    else Some (''Player '' @ str_int k))
            (group_keys (srt (select_play df game_id play_id))),
          if has_BALL_LAND_X df \<and> has_BALL_LAND_Y df
             \<and> BALL_LAND_X (hd (srt (select_play df game_id play_id))) \<noteq> None
             \<and> BALL_LAND_Y (hd (srt (select_play df game_id play_id))) \<noteq> None
          then Some (BALL_LAND_X (hd (srt (select_play df game_id play_id))),
                     BALL_LAND_Y (hd (srt (select_play df game_id play_id))))
          else None)"
  unfolding get_player_points_array_def Let_def ball_landing_nonempty [OF assms] player_loop_groupby
  by simp

lemma aggregate_empty:
  assumes "srt (select_play df game_id play_id) = []"
  shows "get_player_points_array srt df game_id play_id =
     (if has_BALL_LAND_X df \<and> has_BALL_LAND_Y df then Inl IndexError else Inr ([], [], None))"
  unfolding get_player_points_array_def Let_def assms ball_landing_Nil player_loop_groupby
  by (simp add: group_keys_def)

lemma group_keys_sorted: "sorts_by_frame srt \<Longrightarrow> group_keys (srt rs) = group_keys rs"
  unfolding group_keys_def
  by (rule sorted_distinct_set_unique) (simp_all add: sorts_by_frame_set)

lemma group_keys_props:
  "sorted (group_keys rs) \<and> distinct (group_keys rs) \<and> set (group_keys rs) = NFL_ID ` set rs"
  by (simp add: group_keys_def)

lemma aggregate_returns:
  assumes srt: "sorts_by_frame srt"
    and res: "get_player_points_array srt df game_id play_id = Inr (points_array, labels, ball_land)"
  shows "points_array =
           map (\<lambda>k. extract_points (filter (\<lambda>r. NFL_ID r = k) (srt (select_play df game_id play_id))))
             (group_keys (select_play df game_id play_id))"
    and "labels =
           map (\<lambda>k. if has_PLAYER_NAME df
                     then PLAYER_NAME (hd (filter (\<lambda>r. NFL_ID r = k) (srt (select_play df game_id play_id))))
                     else Some (''Player '' @ str_int k))
             (group_keys (select_play df game_id play_id))"
proof -
  let ?sel = "select_play df game_id play_id"
  have keys: "group_keys (srt ?sel) = group_keys ?sel"
    by (rule group_keys_sorted [OF srt])
  show "points_array =
           map (\<lambda>k. extract_points (filter (\<lambda>r. NFL_ID r = k) (srt ?sel))) (group_keys ?sel)"
  proof (cases "srt ?sel = []")
    case True
    with res keys show ?thesis
      by (simp add: aggregate_empty group_keys_def split: if_splits)
  next
    case False
    with res keys show ?thesis
      by (simp add: aggregate_nonempty)
  qed
  show "labels =
           map (\<lambda>k. if has_PLAYER_NAME df
                     then PLAYER_NAME (hd (filter (\<lambda>r. NFL_ID r = k) (srt ?sel)))
                     else Some (''Player '' @ str_int k))
             (group_keys ?sel)"
  proof (cases "srt ?sel = []")
    case True
    with res keys show ?thesis
      by (simp add: aggregate_empty group_keys_def split: if_splits)
  next
    case False
    with res keys show ?thesis
      by (simp add: aggregate_nonempty)
  qed
qed

lemma sorted_frames_filter:
  "sorts_by_frame srt \<Longrightarrow> sorted (map FRAME_ID (filter P (srt rs)))"
  by (simp add: sorts_by_frame_def sorted_filter)

lemma mset_filter_sorted:
  "sorts_by_frame srt \<Longrightarrow> mset (filter P (srt rs)) = mset (filter P rs)"
  by (simp add: sorts_by_frame_def)

lemma extract_points_map: "extract_points rs = map (\<lambda>r. (X r, Y r)) rs"
  by (simp add: extract_points_def zip_map_map zip_same_conv_map)

lemma hd_sorted_least:
  assumes "sorts_by_frame srt" and "rs \<noteq> []"
  shows "hd (srt rs) \<in> set rs \<and> (\<forall>r\<in>set rs. FRAME_ID (hd (srt rs)) \<le> FRAME_ID r)"
proof -
  from assms have ne: "srt rs \<noteq> []" by (simp add: sorts_by_frame_Nil_iff)
  then obtain r0 rest where split: "srt rs = r0 # rest" by (cases "srt rs") auto
  have "sorted (map FRAME_ID (srt rs))" using assms(1) by (simp add: sorts_by_frame_def)
  with split have "\<forall>r\<in>set (srt rs). FRAME_ID r0 \<le> FRAME_ID r" by auto
  moreover have "set (srt rs) = set rs" by (rule sorts_by_frame_set [OF assms(1)])
  ultimately show ?thesis using split by auto
qed

lemma filter_same_key_distinct:
  "distinct (map f ys) \<Longrightarrow> k \<in> set ys \<Longrightarrow> filter (\<lambda>x. f k = f x) ys = [k]"
proof (induction ys)
  case Nil
  then show ?case by simp
next
  case (Cons y ys)
  show ?case
  proof (cases "k = y")
    case True
    with Cons.prems(1) have "filter (\<lambda>x. f k = f x) ys = []"
      by (auto simp: filter_empty_conv)
    with True show ?thesis by simp
  next
    case False
    with Cons.prems have "k \<in> set ys" and "f k \<noteq> f y" by (auto simp: image_iff)
    with Cons show ?thesis by simp
  qed
qed

lemma sorted_distinct_keys_unique:
  assumes "sorted (map f xs)" and "mset xs = mset ys" and "distinct (map f ys)"
  shows "xs = sort_key f ys"
proof -
  have "mset (map f xs) = mset (map f ys)" using assms(2) by simp
  then have dx: "distinct (map f xs)" using assms(3) by (metis mset_eq_imp_distinct_iff)
  have sets: "set xs = set ys" using assms(2) by (rule mset_eq_setD)
  have "sort_key f ys = xs"
  proof (rule properties_for_sort_key)
    show "mset xs = mset ys" by (rule assms(2))
    show "sorted (map f xs)" by (rule assms(1))
    fix k assume "k \<in> set xs"
    then show "filter (\<lambda>x. f k = f x) xs = filter (\<lambda>x. f k = f x) ys"
      using dx assms(3) sets by (simp add: filter_same_key_distinct)
  qed
  then show ?thesis by simp
qed

lemma empty_selection_result:
  assumes "sorts_by_frame srt" and "select_play df game_id play_id = []"
  shows "get_player_points_array srt df game_id play_id =
           (if has_BALL_LAND_X df \<and> has_BALL_LAND_Y df then Inl IndexError
            else Inr ([], [], None))"
  using assms by (simp add: aggregate_empty sorts_by_frame_Nil_iff)

lemma aggregate_parallel:
  assumes "sorts_by_frame srt"
    and "select_play df game_id play_id \<noteq> [] \<or> \<not> (has_BALL_LAND_X df \<and> has_BALL_LAND_Y df)"
  shows "\<exists>points_array labels ball_land.
           get_player_points_array srt df game_id play_id = Inr (points_array, labels, ball_land)
           \<and> length points_array = card (NFL_ID ` set (select_play df game_id play_id))
           \<and> length labels = card (NFL_ID ` set (select_play df game_id play_id))
           \<and> points_array =
               map (\<lambda>k. extract_points (filter (\<lambda>r. NFL_ID r = k) (srt (select_play df game_id play_id))))
                 (group_keys (select_play df game_id play_id))
           \<and> labels =
               map (\<lambda>k. if has_PLAYER_NAME df
                         then PLAYER_NAME (hd (filter (\<lambda>r. NFL_ID r = k) (srt (select_play df game_id play_id))))
                         else Some (''Player '' @ str_int k))
                 (group_keys (select_play df game_id play_id))
           \<and> sorted (group_keys (select_play df game_id play_id))
           \<and> distinct (group_keys (select_play df game_id play_id))
           \<and> set (group_keys (select_play df game_id play_id)) = NFL_ID ` set (select_play df game_id play_id)"
proof -
  let ?sel = "select_play df game_id play_id"
  have "\<exists>res. get_player_points_array srt df game_id play_id = Inr res"
  proof (cases "?sel = []")
    case True
    with assms show ?thesis by (simp add: empty_selection_result)
  next
    case False
    with assms(1) have "srt ?sel \<noteq> []" by (simp add: sorts_by_frame_Nil_iff)
    then show ?thesis by (simp add: aggregate_nonempty)
  qed
  then obtain points_array labels ball_land
    where res: "get_player_points_array srt df game_id play_id = Inr (points_array, labels, ball_land)"
    by (metis prod_cases3)
  note shape = aggregate_returns [OF assms(1) res]
  have len: "length (group_keys ?sel) = card (NFL_ID ` set ?sel)"
    using group_keys_props [of ?sel] by (metis distinct_card)
  from res shape len group_keys_props [of ?sel] show ?thesis by simp
qed

text \<open>The worked example: two players, rows out of frame order, no name column.\<close>

lemma two_player_play_result:
  "get_player_points_array (sort_key FRAME_ID) two_player_play 100 7
     = Inr ([[(Some 10, Some 20), (Some 12, Some 21), (Some 14, Some 22)],
             [(Some 50, Some 25), (Some 48, Some 26)]],
            [Some ''Player 1'', Some ''Player 2''],
            Some (Some 60, Some 10))"
  by (simp add: get_player_points_array_def select_play_def two_player_play_def track_def
      ball_landing_def notna_def groupby_NFL_ID_def group_keys_def Let_def
      str_int_def str_nat.simps digit_chars_def)

subsection \<open>The calls of the renderers\<close>

lemma py_index_nat: "i < length xs \<Longrightarrow> py_index xs (int i) = Inr (xs ! i)"
  by (simp add: py_index_def)

lemma py_index_last: "xs \<noteq> [] \<Longrightarrow> py_index xs (- 1) = Inr (last xs)"
  by (simp add: py_index_def last_conv_nth nat_diff_distrib' Suc_le_eq)

lemma py_index_second_last:
  "2 \<le> length xs \<Longrightarrow> py_index xs (- 2) = Inr (xs ! (length xs - 2))"
  by (simp add: py_index_def nat_diff_distrib')

lemma py_index_Nil: "py_index [] i = Inl IndexError"
  by (simp add: py_index_def)

lemma arrow_of_points:
  assumes "2 \<le> length points"
  shows "arrow_of (map fst points) (map snd points) c =
           Inr (Arrow (fst (points ! (length points - 2))) (snd (points ! (length points - 2)))
                  (fst (last points) - fst (points ! (length points - 2)))
                  (snd (last points) - snd (points ! (length points - 2))) c)"
proof -
  from assms have ne: "points \<noteq> []" by auto
  from assms have lt: "length points - 2 < length points" by simp
  show ?thesis
    using assms ne lt
    by (simp add: arrow_of_def py_index_last py_index_second_last last_map)
qed

lemma plot_loop_calls:
  "n + length points_array \<le> length colors \<Longrightarrow>
   plot_loop colors labels (enumerate n points_array) canvas =
     (canvas @ concat (map (\<lambda>(i, points).
         Trajectory (map fst points) (map snd points) (colors ! i) (label_for labels i)
         # (if 2 \<le> length points
            then [Arrow (fst (points ! (length points - 2))) (snd (points ! (length points - 2)))
                    (fst (last points) - fst (points ! (length points - 2)))
                    (snd (last points) - snd (points ! (length points - 2))) (colors ! i)]
            else [])) (enumerate n points_array)), Inr ())"
proof (induction points_array arbitrary: n canvas)
  case Nil
  show ?case by simp
next
  case (Cons points rest)
  from Cons.prems have n: "n < length colors" and rest: "Suc n + length rest \<le> length colors"
    by simp_all
  show ?case
    by (simp add: Let_def py_index_nat [OF n] arrow_of_points Cons.IH [OF rest])
qed

lemma tab10_nth: "i < n \<Longrightarrow> tab10 [0..<n] ! i = tab10_colors ! min i 9"
  by (simp add: tab10_def)

lemma multi_render_calls:
  "plot_multiple_points points_array ball_land game_id play_id labels =
     (field_background
      @ concat (map (\<lambda>(i, points).
          Trajectory (map fst points) (map snd points) (tab10_colors ! min i 9) (label_for labels i)
          # (if 2 \<le> length points
             then [Arrow (fst (points ! (length points - 2))) (snd (points ! (length points - 2)))
                     (fst (last points) - fst (points ! (length points - 2)))
                     (snd (last points) - snd (points ! (length points - 2)))
                     (tab10_colors ! min i 9)]
             else [])) (enumerate 0 points_array))
      @ decorations ball_land game_id play_id, Inr ())"
proof -
  have len: "0 + length points_array \<le> length (tab10 [0..<length points_array])"
    by (simp add: tab10_def)
  have colors: "\<And>i points. (i, points) \<in> set (enumerate 0 points_array)
      \<Longrightarrow> tab10 [0..<length points_array] ! i = tab10_colors ! min i 9"
    by (simp add: in_set_enumerate_eq tab10_nth)
  have same: "map (\<lambda>(i, points).
          Trajectory (map fst points) (map snd points) (tab10 [0..<length points_array] ! i) (label_for labels i)
          # (if 2 \<le> length points
             then [Arrow (fst (points ! (length points - 2))) (snd (points ! (length points - 2)))
                     (fst (last points) - fst (points ! (length points - 2)))
                     (snd (last points) - snd (points ! (length points - 2)))
                     (tab10 [0..<length points_array] ! i)]
             else [])) (enumerate 0 points_array)
      = map (\<lambda>(i, points).
          Trajectory (map fst points) (map snd points) (tab10_colors ! min i 9) (label_for labels i)
          # (if 2 \<le> length points
             then [Arrow (fst (points ! (length points - 2))) (snd (points ! (length points - 2)))
                     (fst (last points) - fst (points ! (length points - 2)))
                     (snd (last points) - snd (points ! (length points - 2)))
                     (tab10_colors ! min i 9)]
             else [])) (enumerate 0 points_array)"
    by (rule map_cong) (auto simp: colors)
  show ?thesis
    unfolding plot_multiple_points_def Let_def plot_loop_calls [OF len] same
    by simp
qed

lemma map_enumerate_index:
  "map (\<lambda>(i, x). F i x) (enumerate 0 xs) = map (\<lambda>i. F i (xs ! i)) [0..<length xs]"
  by (rule nth_equalityI) (simp_all add: nth_enumerate_eq)

lemma eleven_points_calls:
  "fst (plot_multiple_points eleven_points None None None None) =
     field_background
     @ [Trajectory [0] [0] ''#1f77b4'' (Some ''Player 1''),
        Trajectory [1] [1] ''#ff7f0e'' (Some ''Player 2''),
        Trajectory [2] [2] ''#2ca02c'' (Some ''Player 3''),
        Trajectory [3] [3] ''#d62728'' (Some ''Player 4''),
        Trajectory [4] [4] ''#9467bd'' (Some ''Player 5''),
        Trajectory [5] [5] ''#8c564b'' (Some ''Player 6''),
        Trajectory [6] [6] ''#e377c2'' (Some ''Player 7''),
        Trajectory [7] [7] ''#7f7f7f'' (Some ''Player 8''),
        Trajectory [8] [8] ''#bcbd22'' (Some ''Player 9''),
        Trajectory [9] [9] ''#17becf'' (Some ''Player 10''),
        Trajectory [10] [10] ''#17becf'' (Some ''Player 11'')]
     @ decorations None None None"
  unfolding multi_render_calls map_enumerate_index
  by (simp add: eleven_points_def tab10_colors_def label_for_def str_nat.simps digit_chars_def
      upt_rec)

lemma single_render_nonempty:
  assumes "points \<noteq> []"
  shows "plot_single_trajectory points game_id play_id =
     ([Figure 12 5, XLim (-5) 125, YLim (-5) 58,
       Line (map fst points) (map snd points) ''b-o'',
       Marker (fst (hd points)) (snd (hd points)) ''go'' ''Start'',
       Marker (fst (last points)) (snd (last points)) ''ro'' ''End'',
       XLabel ''X (yards)'',
       YLabel ''Y (yards)'',
       Title (title_of ''Player Trajectory'' game_id play_id),
       Grid, Legend, Aspect, Show], Inr ())"
proof -
  from assms have first: "py_index (map fst points) 0 = Inr (fst (hd points))"
    "py_index (map snd points) 0 = Inr (snd (hd points))"
    by (simp_all add: py_index_def hd_conv_nth)
  from assms have final: "py_index (map fst points) (- 1) = Inr (fst (last points))"
    "py_index (map snd points) (- 1) = Inr (snd (last points))"
    by (simp_all add: py_index_last last_map)
  show ?thesis
    by (simp add: plot_single_trajectory_def Let_def first final)
qed

section \<open>Coordinate extraction: claim C4\<close>

text \<open>
  C4. For a collection of n player rows the Coordinate Extractor returns exactly n pairs,
  the i-th pair being the x and y cells of the i-th row, in row order, with nothing
  filtered or validated: a missing cell is passed on as it is. The empty collection gives
  the empty sequence.
\<close>

theorem extract_points_rows:
  "extract_points rs = map (\<lambda>r. (X r, Y r)) rs
   \<and> length (extract_points rs) = length rs
   \<and> (\<forall>i<length rs. extract_points rs ! i = (X (rs ! i), Y (rs ! i)))
   \<and> extract_points ([] :: 'a row list) = []"
  by (simp add: extract_points_map)

theorem extract_points_rows_witness:
  "length (extract_points gap_rows) = 2
   \<and> extract_points gap_rows ! 0 = (Some 10, Some 20)
   \<and> extract_points gap_rows ! 1 = (Some 12, None)"
  using extract_points_rows [of gap_rows]
  by (auto simp: gap_rows_def track_def)

section \<open>Role filter: claim C7\<close>

text \<open>
  C7. For a collection of role values the Role Filter returns a mask of the same length
  whose i-th entry is true exactly when the i-th role is one of "Other Route Runner",
  "Passer" and "Targeted Receiver"; in particular it is false for a missing role. The
  function has no error result.
\<close>

theorem is_offensive_player_mask:
  "length (is_offensive_player player_role) = length player_role
   \<and> (\<forall>i<length player_role.
        is_offensive_player player_role ! i =
          (player_role ! i = Some ''Other Route Runner'' \<or> player_role ! i = Some ''Passer''
           \<or> player_role ! i = Some ''Targeted Receiver''))
   \<and> (\<forall>i<length player_role. player_role ! i = None \<longrightarrow> \<not> is_offensive_player player_role ! i)"
  by (simp add: is_offensive_player_def)

theorem is_offensive_player_mask_witness:
  "is_offensive_player [Some ''Passer'', Some ''Blocker'', Some ''Targeted Receiver'', None]
     = [True, False, True, False]"
  using is_offensive_player_mask [of "[Some ''Passer'', Some ''Blocker'', Some ''Targeted Receiver'', None]"]
  by (simp add: is_offensive_player_def)

section \<open>Play aggregation: claims C1, C3, C5, C6, C10\<close>

text \<open>
  C1. The claim is that a play selection matching no row gives an empty trajectory
  collection, an empty label collection and an absent landing point, without an error,
  also when the landing columns are in the schema. On a table that has both landing
  columns the code reads the first row of the empty selection and raises IndexError; the
  lemma \<open>empty_selection_result\<close> gives the result of every empty selection.
\<close>

theorem empty_selection_index_error:
  "select_play empty_table 100 7 = []
   \<and> get_player_points_array (sort_key FRAME_ID) empty_table 100 7 = Inl IndexError"
  by (simp add: get_player_points_array_def select_play_def empty_table_def ball_landing_def)

text \<open>
  C3. For a play selection matching at least one row the aggregator returns, and its
  landing point is present exactly when both landing columns are in the schema and the
  first selected row has both cells non-missing; it is then the pair of these two cells.
  The first selected row is the first row of the selection as the code holds it at that
  point, sorted by frame: a selected row of least frame identifier. Later rows are not
  consulted.
\<close>

theorem landing_point_first_row:
  assumes "sorts_by_frame sort_values" and "select_play df game_id play_id \<noteq> []"
  shows "\<exists>points_array labels ball_land.
           get_player_points_array sort_values df game_id play_id
             = Inr (points_array, labels, ball_land)
           \<and> (ball_land \<noteq> None \<longleftrightarrow>
                has_BALL_LAND_X df \<and> has_BALL_LAND_Y df
                \<and> BALL_LAND_X (hd (sort_values (select_play df game_id play_id))) \<noteq> None
                \<and> BALL_LAND_Y (hd (sort_values (select_play df game_id play_id))) \<noteq> None)
           \<and> (ball_land = None
               \<or> ball_land = Some (BALL_LAND_X (hd (sort_values (select_play df game_id play_id))),
                                   BALL_LAND_Y (hd (sort_values (select_play df game_id play_id)))))
           \<and> hd (sort_values (select_play df game_id play_id)) \<in> set (select_play df game_id play_id)
           \<and> (\<forall>r\<in>set (select_play df game_id play_id).
                 FRAME_ID (hd (sort_values (select_play df game_id play_id))) \<le> FRAME_ID r)"
proof -
  from assms have "sort_values (select_play df game_id play_id) \<noteq> []"
    by (simp add: sorts_by_frame_Nil_iff)
  then have "get_player_points_array sort_values df game_id play_id =
     Inr (map (\<lambda>k. extract_points (filter (\<lambda>r. NFL_ID r = k) (sort_values (select_play df game_id play_id))))
            (group_keys (sort_values (select_play df game_id play_id))),
          map (\<lambda>k. if has_PLAYER_NAME df
                    then PLAYER_NAME (hd (filter (\<lambda>r. NFL_ID r = k) (sort_values (select_play df game_id play_id))))
                    else Some (''Player '' @ str_int k))
            (group_keys (sort_values (select_play df game_id play_id))),
          if has_BALL_LAND_X df \<and> has_BALL_LAND_Y df
             \<and> BALL_LAND_X (hd (sort_values (select_play df game_id play_id))) \<noteq> None
             \<and> BALL_LAND_Y (hd (sort_values (select_play df game_id play_id))) \<noteq> None
          then Some (BALL_LAND_X (hd (sort_values (select_play df game_id play_id))),
                     BALL_LAND_Y (hd (sort_values (select_play df game_id play_id))))
          else None)"
    by (rule aggregate_nonempty)
  with hd_sorted_least [OF assms]
  show ?thesis by simp
qed

theorem landing_point_first_row_witness:
  "\<exists>points_array labels.
     get_player_points_array (sort_key FRAME_ID) late_landing_play 100 7
       = Inr (points_array, labels, None)"
proof -
  have "select_play late_landing_play 100 7 \<noteq> []"
    by (simp add: select_play_def late_landing_play_def track_def)
  from landing_point_first_row [OF sorts_by_frame_sort_key this]
  show ?thesis
    by (auto simp: select_play_def late_landing_play_def track_def)
qed

text \<open>
  C5. The claim is that a selection whose rows hold k distinct player identifiers gives
  exactly k trajectories and k labels, index by index for the same player, the players in
  ascending identifier order. For k = 0 on a table with both landing columns nothing is
  returned: the code raises IndexError before it reaches the players. Wherever the
  aggregator returns, the claim holds (lemma \<open>aggregate_parallel\<close>).
\<close>

theorem no_players_index_error:
  "group_keys (select_play two_player_play 100 8) = []
   \<and> get_player_points_array (sort_key FRAME_ID) two_player_play 100 8 = Inl IndexError"
  by (simp add: get_player_points_array_def select_play_def two_player_play_def track_def
      ball_landing_def group_keys_def)

text \<open>
  C6. For every play selection the aggregator returns, unless the selection is empty on a
  table with both landing columns, and what it returns holds one trajectory per player of
  the selection. Each trajectory is the list of (x, y) pairs of rows of one player that
  are ordered by increasing frame identifier and are, counted with repetitions, exactly
  the selected rows of that player: nothing is dropped or merged, and the order is that of
  the frame sort. When the frames of the player's rows are pairwise different, the
  trajectory is therefore the player's selected rows sorted by frame.
\<close>

theorem trajectories_in_frame_order:
  assumes "sorts_by_frame sort_values"
  shows "(select_play df game_id play_id \<noteq> [] \<or> \<not> (has_BALL_LAND_X df \<and> has_BALL_LAND_Y df)
            \<longrightarrow> (\<exists>points_array labels ball_land.
                   get_player_points_array sort_values df game_id play_id
                     = Inr (points_array, labels, ball_land)))
       \<and> (\<forall>points_array labels ball_land.
            get_player_points_array sort_values df game_id play_id
              = Inr (points_array, labels, ball_land)
            \<longrightarrow> length points_array = length (group_keys (select_play df game_id play_id))
                \<and> (\<forall>i<length points_array.
                      \<exists>player_rows.
                        points_array ! i = map (\<lambda>r. (X r, Y r)) player_rows
                        \<and> sorted (map FRAME_ID player_rows)
                        \<and> mset player_rows
                            = mset (filter (\<lambda>r. NFL_ID r = group_keys (select_play df game_id play_id) ! i)
                                      (select_play df game_id play_id))
                        \<and> (distinct (map FRAME_ID
                               (filter (\<lambda>r. NFL_ID r = group_keys (select_play df game_id play_id) ! i)
                                  (select_play df game_id play_id)))
                            \<longrightarrow> player_rows
                                  = sort_key FRAME_ID
                                      (filter (\<lambda>r. NFL_ID r = group_keys (select_play df game_id play_id) ! i)
                                         (select_play df game_id play_id)))))"
proof (intro conjI allI impI)
  let ?sel = "select_play df game_id play_id"
  {
    assume "?sel \<noteq> [] \<or> \<not> (has_BALL_LAND_X df \<and> has_BALL_LAND_Y df)"
    from aggregate_parallel [OF assms this]
    show "\<exists>points_array labels ball_land.
            get_player_points_array sort_values df game_id play_id
              = Inr (points_array, labels, ball_land)"
      by blast
  }
  fix points_array labels ball_land
  assume res: "get_player_points_array sort_values df game_id play_id
                 = Inr (points_array, labels, ball_land)"
  note shape = aggregate_returns(1) [OF assms res]
  from shape show len: "length points_array = length (group_keys ?sel)" by simp
  fix i assume i: "i < length points_array"
  let ?k = "group_keys ?sel ! i"
  let ?player_rows = "filter (\<lambda>r. NFL_ID r = ?k) (sort_values ?sel)"
  from shape i have "points_array ! i = extract_points ?player_rows" by simp
  then have pairs: "points_array ! i = map (\<lambda>r. (X r, Y r)) ?player_rows"
    by (simp add: extract_points_map)
  have ordered: "sorted (map FRAME_ID ?player_rows)"
    by (rule sorted_frames_filter [OF assms])
  have same: "mset ?player_rows = mset (filter (\<lambda>r. NFL_ID r = ?k) ?sel)"
    by (rule mset_filter_sorted [OF assms])
  have "distinct (map FRAME_ID (filter (\<lambda>r. NFL_ID r = ?k) ?sel))
          \<longrightarrow> ?player_rows = sort_key FRAME_ID (filter (\<lambda>r. NFL_ID r = ?k) ?sel)"
    using sorted_distinct_keys_unique [OF ordered same] by blast
  with pairs ordered same
  show "\<exists>player_rows.
          points_array ! i = map (\<lambda>r. (X r, Y r)) player_rows
          \<and> sorted (map FRAME_ID player_rows)
          \<and> mset player_rows = mset (filter (\<lambda>r. NFL_ID r = ?k) ?sel)
          \<and> (distinct (map FRAME_ID (filter (\<lambda>r. NFL_ID r = ?k) ?sel))
              \<longrightarrow> player_rows = sort_key FRAME_ID (filter (\<lambda>r. NFL_ID r = ?k) ?sel))"
    by blast
qed

theorem trajectories_in_frame_order_witness:
  "\<exists>points_array labels ball_land.
     get_player_points_array (sort_key FRAME_ID) two_player_play 100 7
       = Inr (points_array, labels, ball_land)
     \<and> length points_array = 2
     \<and> points_array ! 0 = [(Some 10, Some 20), (Some 12, Some 21), (Some 14, Some 22)]
     \<and> points_array ! 1 = [(Some 50, Some 25), (Some 48, Some 26)]"
proof -
  let ?rows = "[track 2 2 48 26 None (Some 60) (Some 10),
                track 1 1 10 20 None (Some 60) (Some 10),
                track 3 1 14 22 None (Some 60) (Some 10),
                track 1 2 50 25 None (Some 60) (Some 10),
                track 2 1 12 21 None (Some 60) (Some 10)]"
  have sel: "select_play two_player_play 100 7 = ?rows"
    by (simp add: select_play_def two_player_play_def track_def)
  have keys: "group_keys ?rows = [1, 2]"
    by (simp add: group_keys_def track_def)
  note inst = trajectories_in_frame_order [OF sorts_by_frame_sort_key, of two_player_play 100 7,
      unfolded sel keys]
  from inst obtain points_array labels ball_land
    where res: "get_player_points_array (sort_key FRAME_ID) two_player_play 100 7
                  = Inr (points_array, labels, ball_land)"
    by blast
  with inst have len: "length points_array = 2"
    by simp
  from inst res have each: "\<And>i. i < length points_array \<Longrightarrow>
      \<exists>player_rows.
        points_array ! i = map (\<lambda>r. (X r, Y r)) player_rows
        \<and> (distinct (map FRAME_ID (filter (\<lambda>r. NFL_ID r = [1, 2] ! i) ?rows))
            \<longrightarrow> player_rows = sort_key FRAME_ID (filter (\<lambda>r. NFL_ID r = [1, 2] ! i) ?rows))"
    by blast
  have "0 < length points_array" using len by simp
  from each [OF this]
  have first: "points_array ! 0 = [(Some 10, Some 20), (Some 12, Some 21), (Some 14, Some 22)]"
    by (auto simp: track_def)
  have "1 < length points_array" using len by simp
  from each [OF this]
  have second: "points_array ! 1 = [(Some 50, Some 25), (Some 48, Some 26)]"
    by (auto simp: track_def)
  from res len first second show ?thesis by blast
qed

text \<open>
  C10. When the name column is in the schema, the label of a player is the name cell of the
  first row of that player's rows in frame order, whatever it holds, so a missing name
  gives a missing label. The label "Player" followed by the identifier is made only when
  the name column is not in the schema.
\<close>

theorem player_label_from_name_cell:
  assumes "sorts_by_frame sort_values"
    and "get_player_points_array sort_values df game_id play_id
           = Inr (points_array, labels, ball_land)"
    and "i < length labels"
  shows "(has_PLAYER_NAME df \<longrightarrow>
            labels ! i = PLAYER_NAME (hd (filter (\<lambda>r. NFL_ID r = group_keys (select_play df game_id play_id) ! i)
                                           (sort_values (select_play df game_id play_id)))))
       \<and> (\<not> has_PLAYER_NAME df \<longrightarrow>
            labels ! i = Some (''Player '' @ str_int (group_keys (select_play df game_id play_id) ! i)))"
  using aggregate_returns(2) [OF assms(1,2)] assms(3) by simp

theorem player_label_from_name_cell_witness:
  "get_player_points_array (sort_key FRAME_ID) unnamed_first_frame_play 100 7
     = Inr ([[(Some 10, Some 20), (Some 12, Some 21)], [(Some 50, Some 25)]],
            [None, Some ''Bo Day''], None)
   \<and> [None, Some ''Bo Day''] ! 0
       = PLAYER_NAME (hd (filter (\<lambda>r. NFL_ID r = group_keys (select_play unnamed_first_frame_play 100 7) ! 0)
                            (sort_key FRAME_ID (select_play unnamed_first_frame_play 100 7))))"
proof -
  have res: "get_player_points_array (sort_key FRAME_ID) unnamed_first_frame_play 100 7
     = Inr ([[(Some 10, Some 20), (Some 12, Some 21)], [(Some 50, Some 25)]],
            [None, Some ''Bo Day''], None)"
    by (simp add: get_player_points_array_def select_play_def unnamed_first_frame_play_def
        track_def ball_landing_def groupby_NFL_ID_def group_keys_def Let_def)
  have len: "0 < length [None, Some ''Bo Day'']" by simp
  from player_label_from_name_cell [OF sorts_by_frame_sort_key res len] res
  show ?thesis by (simp add: unnamed_first_frame_play_def)
qed

section \<open>Field rendering: claims C2, C8, C9\<close>

text \<open>
  C9. In the renderer of several trajectories, the calls made are the background, then for
  each trajectory in turn its line and, if and only if that trajectory has at least two
  points, one arrow, then the closing calls. The arrow is anchored at the second-to-last
  point and its displacement is the last point minus the second-to-last point. What is
  drawn for one trajectory depends on its own points, index and label only, so a
  trajectory with fewer than two points loses its arrow and changes nothing else; the
  renderer ends normally on every input.
\<close>

theorem arrow_per_trajectory:
  "plot_multiple_points points_array ball_land game_id play_id labels =
     (field_background
      @ concat (map (\<lambda>i.
          Trajectory (map fst (points_array ! i)) (map snd (points_array ! i))
            (tab10_colors ! min i 9) (label_for labels i)
          # (if 2 \<le> length (points_array ! i)
             then [Arrow (fst (points_array ! i ! (length (points_array ! i) - 2)))
                     (snd (points_array ! i ! (length (points_array ! i) - 2)))
                     (fst (last (points_array ! i))
                        - fst (points_array ! i ! (length (points_array ! i) - 2)))
                     (snd (last (points_array ! i))
                        - snd (points_array ! i ! (length (points_array ! i) - 2)))
                     (tab10_colors ! min i 9)]
             else [])) [0..<length points_array])
      @ decorations ball_land game_id play_id, Inr ())"
  unfolding multi_render_calls map_enumerate_index ..

theorem arrow_per_trajectory_witness:
  "plot_multiple_points mixed_points None None None None =
     (field_background
      @ [Trajectory [] [] ''#1f77b4'' (Some ''Player 1''),
         Trajectory [5] [5] ''#ff7f0e'' (Some ''Player 2''),
         Trajectory [10, 12, 14] [20, 21, 22] ''#2ca02c'' (Some ''Player 3''),
         Arrow 12 21 2 1 ''#2ca02c'']
      @ decorations None None None, Inr ())"
  using arrow_per_trajectory [of mixed_points None None None None]
  by (simp add: mixed_points_def tab10_colors_def label_for_def str_nat.simps digit_chars_def
      upt_rec)

text \<open>
  C8. The claim is that for eleven or more trajectories the colour of every index is
  defined and the assignment does not fail, wrapping around the palette,
  color(i) = palette[i mod len(palette)]. On eleven trajectories the renderer ends
  normally and every index has a colour, but the colour table, which the source builds
  under the comment "Get distinct colors", is not distinct: the eleventh trajectory is
  drawn in the colour of the tenth, the last of the palette, and not in the first, which
  wrapping around would give.
\<close>

theorem eleventh_color_repeats_tenth:
  "snd (plot_multiple_points eleven_points None None None None) = Inr ()
   \<and> py_index (tab10 [0..<length eleven_points]) 9 = Inr ''#17becf''
   \<and> py_index (tab10 [0..<length eleven_points]) 10 = Inr ''#17becf''
   \<and> \<not> distinct (tab10 [0..<length eleven_points])
   \<and> tab10_colors ! (10 mod length tab10_colors) = ''#1f77b4''
   \<and> Trajectory [9] [9] ''#17becf'' (Some ''Player 10'')
        \<in> set (fst (plot_multiple_points eleven_points None None None None))
   \<and> Trajectory [10] [10] ''#17becf'' (Some ''Player 11'')
        \<in> set (fst (plot_multiple_points eleven_points None None None None))
   \<and> Trajectory [10] [10] ''#1f77b4'' (Some ''Player 11'')
        \<notin> set (fst (plot_multiple_points eleven_points None None None None))"
proof -
  have "snd (plot_multiple_points eleven_points None None None None) = Inr ()"
    by (simp add: multi_render_calls)
  moreover have "py_index (tab10 [0..<length eleven_points]) 9 = Inr ''#17becf''"
    by (simp add: eleven_points_def py_index_def tab10_def tab10_colors_def)
  moreover have "py_index (tab10 [0..<length eleven_points]) 10 = Inr ''#17becf''"
    by (simp add: eleven_points_def py_index_def tab10_def tab10_colors_def)
  moreover have "\<not> distinct (tab10 [0..<length eleven_points])"
    by (simp add: eleven_points_def tab10_def tab10_colors_def upt_rec)
  moreover have "tab10_colors ! (10 mod length tab10_colors) = ''#1f77b4''"
    by (simp add: tab10_colors_def)
  moreover have "Trajectory [9] [9] ''#17becf'' (Some ''Player 10'')
        \<in> set (fst (plot_multiple_points eleven_points None None None None))"
    unfolding eleven_points_calls by simp
  moreover have "Trajectory [10] [10] ''#17becf'' (Some ''Player 11'')
        \<in> set (fst (plot_multiple_points eleven_points None None None None))"
    unfolding eleven_points_calls by simp
  moreover have "Trajectory [10] [10] ''#1f77b4'' (Some ''Player 11'')
        \<notin> set (fst (plot_multiple_points eleven_points None None None None))"
    unfolding eleven_points_calls
    by (auto simp: field_background_def decorations_def)
  ultimately show ?thesis by blast
qed

text \<open>
  C2. The claim is that the renderer of one trajectory rejects the empty trajectory by an
  explicit check and fails fast, instead of letting the index fault of reading the first
  point surface. On the empty trajectory the calls of the figure, the limits and the line
  have already been made when the renderer fails, and it fails with that index fault.
\<close>

theorem empty_trajectory_index_fault:
  "fst (plot_single_trajectory ([] :: (rat \<times> rat) list) None None) \<noteq> []
   \<and> snd (plot_single_trajectory ([] :: (rat \<times> rat) list) None None) = Inl IndexError"
  by (simp add: plot_single_trajectory_def py_index_def)

text \<open>
  C2, as the code has it. For the empty trajectory the renderer of one trajectory makes no
  check of its input: it creates the figure, sets the view limits, plots the empty line
  and then stops with the IndexError of reading the first point. (On every other
  trajectory it ends normally, lemma \<open>single_render_nonempty\<close>.)
\<close>

theorem empty_trajectory_unchecked:
  "plot_single_trajectory [] game_id play_id =
     ([Figure 12 5, XLim (-5) 125, YLim (-5) 58, Line [] [] ''b-o''], Inl IndexError)"
  by (simp add: plot_single_trajectory_def py_index_def)

end
